theory Spec2Isabelle
  imports Main "HOL-Library.AList"
begin

section \<open>Python text operations used by the generator\<close>

text \<open>
  Strings are \<^typ>\<open>string\<close>, one \<^typ>\<open>char\<close> per character: a \<^typ>\<open>char\<close> is a character
  whose code point is below 256 (\<^term>\<open>of_char\<close> gives the code point), and the operations
  below are Python's on such text. Text with a character beyond that range has no
  counterpart here. Where an operation can produce such a character (the capital of
  \<open>U+00FF\<close>), its result is a list of code points.
  A method of the source whose name starts with an underscore keeps its name without it
  (\<open>_increment_version\<close> is \<open>increment_version\<close>).
\<close>

definition is_digit :: "char \<Rightarrow> bool" where
  "is_digit c = (c \<in> set ''0123456789'')"

text \<open>\<open>str.isspace\<close>: the characters that \<open>str.strip()\<close> removes and that \<open>\s\<close> matches in a
  pattern. Below 256 these are the code points 9 to 13, 28 to 32, \<open>U+0085\<close> and \<open>U+00A0\<close>.\<close>

definition is_space :: "char \<Rightarrow> bool" where
  "is_space c =
     (let n = (of_char c :: nat)
      in (9 \<le> n \<and> n \<le> 13) \<or> (28 \<le> n \<and> n \<le> 32) \<or> n = 133 \<or> n = 160)"

text \<open>The whitespace that \<open>int()\<close> skips around a literal: the code points 9 to 13 and 32,
  and the two whitespace characters above 127; the separators 28 to 31 are not skipped.\<close>

definition is_c_space :: "char \<Rightarrow> bool" where
  "is_c_space c =
     (let n = (of_char c :: nat) in (9 \<le> n \<and> n \<le> 13) \<or> n = 32 \<or> n = 133 \<or> n = 160)"

definition strip_with :: "(char \<Rightarrow> bool) \<Rightarrow> string \<Rightarrow> string" where
  "strip_with p s = rev (dropWhile p (rev (dropWhile p s)))"

definition strip :: "string \<Rightarrow> string" where
  "strip s = strip_with is_space s"

text \<open>\<open>s.split(sep)\<close> for a one-character separator: every occurrence splits.\<close>

fun split_on :: "char \<Rightarrow> string \<Rightarrow> string list" where
  "split_on sep [] = [[]]"
| "split_on sep (c # cs) =
     (if c = sep then [] # split_on sep cs
      else (let r = split_on sep cs in (c # hd r) # tl r))"

text \<open>\<open>s.split(sep, 1)\<close> for a separator that occurs in \<open>s\<close>: the text before and after
  its first occurrence.\<close>

definition split_first :: "char \<Rightarrow> string \<Rightarrow> string \<times> string" where
  "split_first sep s = (takeWhile (\<lambda>c. c \<noteq> sep) s, tl (dropWhile (\<lambda>c. c \<noteq> sep) s))"

definition digit_val :: "char \<Rightarrow> nat" where
  "digit_val c = of_char c - 48"

definition digits_val :: "string \<Rightarrow> nat" where
  "digits_val s = foldl (\<lambda>a c. 10 * a + digit_val c) 0 s"

text \<open>The digit part of a decimal literal: digits, with single underscores allowed
  between two digits.\<close>

fun grouped :: "string \<Rightarrow> bool" where
  "grouped [] = False"
| "grouped [c] = is_digit c"
| "grouped (c # d # r) =
     (is_digit c \<and> (if d = CHR ''_'' then grouped r else grouped (d # r)))"

text \<open>
  Python's integers are unbounded and so is \<^typ>\<open>int\<close>, but the interpreter (3.11, which
  the script names) refuses to convert between text and a number of more than 4300
  digits, its default limit, which the script does not change: \<open>int\<close> of a literal with
  more digits and the formatting of a number with more digits raise \<open>ValueError\<close>. The
  limit counts the digits of the literal, leading zeros too; the sign, the underscores
  and the whitespace do not count.
\<close>

definition max_str_digits :: nat where
  "max_str_digits = 4300"

definition unsigned_int :: "string \<Rightarrow> int option" where
  "unsigned_int s =
     (if grouped s \<and> length (filter is_digit s) \<le> max_str_digits
      then Some (int (digits_val (filter is_digit s)))
      else None)"

text \<open>\<open>int(s)\<close> for a string: \<open>None\<close> stands for \<open>ValueError\<close>.\<close>

definition py_int :: "string \<Rightarrow> int option" where
  "py_int s =
     (case strip_with is_c_space s of
        [] \<Rightarrow> None
      | c # r \<Rightarrow>
          if c = CHR ''-'' then map_option uminus (unsigned_int r)
          else if c = CHR ''+'' then unsigned_int r
          else unsigned_int (c # r))"

function show_nat :: "nat \<Rightarrow> string" where
  "show_nat n =
     (if n < 10 then [''0123456789'' ! n]
      else show_nat (n div 10) @ [''0123456789'' ! (n mod 10)])"
  by pat_completeness auto
termination
  by (relation "measure id") auto

declare show_nat.simps [simp del]

text \<open>\<open>f"{i}"\<close> for an integer: \<open>None\<close> stands for the \<open>ValueError\<close> of a number with too
  many digits.\<close>

definition format_int :: "int \<Rightarrow> string option" where
  "format_int i =
     (let digits = show_nat (nat \<bar>i\<bar>)
      in if max_str_digits < length digits then None
         else Some (if i < 0 then CHR ''-'' # digits else digits))"

section \<open>Version bump\<close>

text \<open>
  The body of \<open>_increment_version\<close> after the file has been read: the \<open>try\<close> block
  fails with \<open>IndexError\<close> at \<open>parts[2]\<close>, with \<open>ValueError\<close> at \<open>int\<close> or with
  \<open>ValueError\<close> when the new patch number is formatted, and the bare \<open>except\<close> then sets
  the result to \<open>0.1.1\<close>.
\<close>

definition new_version :: "string \<Rightarrow> string" where
  "new_version current_version =
     (let parts = split_on CHR ''.'' current_version in
      if length parts < 3 then ''0.1.1''
      else (case py_int (parts ! 2) of
              None \<Rightarrow> ''0.1.1''
            | Some n \<Rightarrow>
                (case format_int (n + 1) of
                   None \<Rightarrow> ''0.1.1''
                 | Some patch \<Rightarrow> parts ! 0 @ ''.'' @ parts ! 1 @ ''.'' @ patch)))"

text \<open>
  The \<open>VERSION\<close> file is \<open>None\<close> when absent and \<open>Some text\<close> otherwise; the step returns
  the file as it leaves it.
\<close>

definition increment_version :: "string option \<Rightarrow> string option" where
  "increment_version version_file =
     Some (new_version (case version_file of
                          Some text \<Rightarrow> strip text
                        | None \<Rightarrow> ''0.1.0''))"

text \<open>The shape the specification calls well-formed: three dot-separated decimal
  numbers.\<close>

definition is_number :: "string \<Rightarrow> bool" where
  "is_number s = (s \<noteq> [] \<and> (\<forall>c \<in> set s. is_digit c))"

definition well_formed_version :: "string \<Rightarrow> bool" where
  "well_formed_version v =
     (case split_on CHR ''.'' v of
        [a, b, c] \<Rightarrow> is_number a \<and> is_number b \<and> is_number c
      | _ \<Rightarrow> False)"

section \<open>Python values, dictionaries and exceptions\<close>

text \<open>
  The values that the override configuration, the analysis record and a decoded advisory
  reply are made of. A dictionary keeps its keys in insertion order, as Python's does:
  it is an association list with distinct keys.
\<close>

datatype pyval =
    PNone
  | PBool bool
  | PInt int
  | PStr string
  | PList "pyval list"
  | PDict "(string \<times> pyval) list"

type_synonym dict = "(string \<times> pyval) list"

text \<open>\<open>d.get(k)\<close>, \<open>d.get(k, default)\<close> and \<open>d[k] = v\<close> on a dictionary.\<close>

definition dict_get :: "dict \<Rightarrow> string \<Rightarrow> pyval option" where
  "dict_get d k = map_of d k"

definition get_or :: "dict \<Rightarrow> string \<Rightarrow> pyval \<Rightarrow> pyval" where
  "get_or d k dflt = (case dict_get d k of Some v \<Rightarrow> v | None \<Rightarrow> dflt)"

definition dict_set :: "dict \<Rightarrow> string \<Rightarrow> pyval \<Rightarrow> dict" where
  "dict_set d k v = AList.update k v d"

text \<open>
  The exceptions of the modelled code. \<open>Exception msg\<close> is \<open>raise Exception(msg)\<close> with a
  literal message; \<open>ApiError status text\<close> and \<open>AccessFailed e\<close> are the two exceptions
  whose message \<open>_call_openai_api\<close> formats from a response or from a caught exception;
  \<open>LibraryError\<close> is whatever a library call raises (the HTTP client, the JSON decoder of
  a response body).
\<close>

datatype exn =
    Exception string
  | ApiError nat string
  | AccessFailed exn
  | LibraryError string
  | KeyError
  | IndexError
  | TypeError
  | AttributeError
  | FileExistsError

text \<open>Truth value of a Python value in a condition.\<close>

fun truthy :: "pyval \<Rightarrow> bool" where
  "truthy PNone = False"
| "truthy (PBool b) = b"
| "truthy (PInt i) = (i \<noteq> 0)"
| "truthy (PStr s) = (s \<noteq> [])"
| "truthy (PList xs) = (xs \<noteq> [])"
| "truthy (PDict d) = (d \<noteq> [])"

text \<open>\<open>obj.get(key, default)\<close>: only a dictionary has the method.\<close>

fun py_get :: "pyval \<Rightarrow> string \<Rightarrow> pyval \<Rightarrow> exn + pyval" where
  "py_get (PDict d) key dflt = Inr (get_or d key dflt)"
| "py_get _ key dflt = Inl AttributeError"

text \<open>\<open>obj[key]\<close> for a string key, and \<open>obj[0]\<close>. Dictionaries here have string keys
  only, so \<open>d[0]\<close> is a \<open>KeyError\<close>.\<close>

fun subscript :: "pyval \<Rightarrow> string \<Rightarrow> exn + pyval" where
  "subscript (PDict d) key = (case dict_get d key of Some v \<Rightarrow> Inr v | None \<Rightarrow> Inl KeyError)"
| "subscript _ key = Inl TypeError"

fun subscript0 :: "pyval \<Rightarrow> exn + pyval" where
  "subscript0 (PList []) = Inl IndexError"
| "subscript0 (PList (x # xs)) = Inr x"
| "subscript0 (PStr []) = Inl IndexError"
| "subscript0 (PStr (c # cs)) = Inr (PStr [c])"
| "subscript0 (PDict d) = Inl KeyError"
| "subscript0 _ = Inl TypeError"

text \<open>The receiver of a \<open>str\<close> method (\<open>.replace\<close>, \<open>.lower\<close>): any other value has no
  such attribute.\<close>

fun str_method :: "pyval \<Rightarrow> exn + string" where
  "str_method (PStr s) = Inr s"
| "str_method _ = Inl AttributeError"

text \<open>\<open>int(x)\<close>: \<open>None\<close> stands for \<open>ValueError\<close> or \<open>TypeError\<close>, which the caller
  catches together.\<close>

fun to_int :: "pyval \<Rightarrow> int option" where
  "to_int (PInt i) = Some i"
| "to_int (PBool b) = Some (if b then 1 else 0)"
| "to_int (PStr s) = py_int s"
| "to_int _ = None"

subsection \<open>More text operations\<close>

text \<open>The letters \<open>a-z\<close> and \<open>A-Z\<close>.\<close>

definition is_lower :: "char \<Rightarrow> bool" where
  "is_lower c = (c \<in> set ''abcdefghijklmnopqrstuvwxyz'')"

definition is_upper :: "char \<Rightarrow> bool" where
  "is_upper c = (c \<in> set ''ABCDEFGHIJKLMNOPQRSTUVWXYZ'')"

text \<open>The capital letters above 127 and, in the same order, their small letters (each 32
  further on): \<open>U+00C0\<close> to \<open>U+00DE\<close> without the multiplication sign.\<close>

definition latin_capitals :: string where
  "latin_capitals = [
      CHR 0xC0, CHR 0xC1, CHR 0xC2, CHR 0xC3, CHR 0xC4, CHR 0xC5, CHR 0xC6, CHR 0xC7,
      CHR 0xC8, CHR 0xC9, CHR 0xCA, CHR 0xCB, CHR 0xCC, CHR 0xCD, CHR 0xCE, CHR 0xCF,
      CHR 0xD0, CHR 0xD1, CHR 0xD2, CHR 0xD3, CHR 0xD4, CHR 0xD5, CHR 0xD6, CHR 0xD8,
      CHR 0xD9, CHR 0xDA, CHR 0xDB, CHR 0xDC, CHR 0xDD, CHR 0xDE]"

definition latin_smalls :: string where
  "latin_smalls = [
      CHR 0xE0, CHR 0xE1, CHR 0xE2, CHR 0xE3, CHR 0xE4, CHR 0xE5, CHR 0xE6, CHR 0xE7,
      CHR 0xE8, CHR 0xE9, CHR 0xEA, CHR 0xEB, CHR 0xEC, CHR 0xED, CHR 0xEE, CHR 0xEF,
      CHR 0xF0, CHR 0xF1, CHR 0xF2, CHR 0xF3, CHR 0xF4, CHR 0xF5, CHR 0xF6, CHR 0xF8,
      CHR 0xF9, CHR 0xFA, CHR 0xFB, CHR 0xFC, CHR 0xFD, CHR 0xFE]"

text \<open>\<open>s.lower()\<close>, a character at a time.\<close>

definition lower_char :: "char \<Rightarrow> char" where
  "lower_char c =
     (case map_of (zip (''ABCDEFGHIJKLMNOPQRSTUVWXYZ'' @ latin_capitals)
                       (''abcdefghijklmnopqrstuvwxyz'' @ latin_smalls)) c of
        Some l \<Rightarrow> l
      | None \<Rightarrow> c)"

definition lower :: "string \<Rightarrow> string" where
  "lower s = map lower_char s"

text \<open>
  The code points of \<open>c.upper()\<close> and of the title case of \<open>c\<close>. A small letter becomes its
  capital, 32 below; the sharp s \<open>U+00DF\<close> becomes two letters; the capitals of the micro
  sign \<open>U+00B5\<close> and of \<open>U+00FF\<close> lie beyond 255.
\<close>

definition is_small :: "char \<Rightarrow> bool" where
  "is_small c = (is_lower c \<or> c \<in> set latin_smalls)"

definition upper_points :: "char \<Rightarrow> nat list" where
  "upper_points c =
     (if is_small c then [of_char c - 32]
      else if c = CHR 0xB5 then [0x39C]
      else if c = CHR 0xDF then [0x53, 0x53]
      else if c = CHR 0xFF then [0x178]
      else [of_char c])"

definition title_points :: "char \<Rightarrow> nat list" where
  "title_points c =
     (if is_small c then [of_char c - 32]
      else if c = CHR 0xB5 then [0x39C]
      else if c = CHR 0xDF then [0x53, 0x73]
      else if c = CHR 0xFF then [0x178]
      else [of_char c])"

text \<open>\<open>s.upper()\<close>, as code points.\<close>

definition upper :: "string \<Rightarrow> nat list" where
  "upper s = concat (map upper_points s)"

text \<open>The cased characters: the letters, and the two ordinal indicators \<open>U+00AA\<close> and
  \<open>U+00BA\<close>.\<close>

definition is_cased :: "char \<Rightarrow> bool" where
  "is_cased c =
     (is_lower c \<or> is_upper c \<or> c \<in> set latin_capitals \<or> c \<in> set latin_smalls
      \<or> c \<in> set [CHR 0xAA, CHR 0xB5, CHR 0xBA, CHR 0xDF, CHR 0xFF])"

definition startswith :: "string \<Rightarrow> string \<Rightarrow> bool" where
  "startswith s p = (take (length p) s = p)"

text \<open>\<open>sub in s\<close>.\<close>

fun contains :: "string \<Rightarrow> string \<Rightarrow> bool" where
  "contains sub [] = (sub = [])"
| "contains sub (c # cs) = (startswith (c # cs) sub \<or> contains sub cs)"

text \<open>\<open>s.replace(old, new)\<close> for a non-empty \<open>old\<close>, the only use in the source.\<close>

function replace :: "string \<Rightarrow> string \<Rightarrow> string \<Rightarrow> string" where
  "replace old new s =
     (if s = [] \<or> old = [] then s
      else if startswith s old then new @ replace old new (drop (length old) s)
      else hd s # replace old new (tl s))"
  by pat_completeness auto
termination
  by (relation "measure (\<lambda>(old, new, s). length s)") auto

declare replace.simps [simp del]

text \<open>\<open>s.title()\<close>, as code points: a character that follows a cased character is
  lowered, any other is put in title case.\<close>

fun title_from :: "bool \<Rightarrow> string \<Rightarrow> nat list" where
  "title_from previous_is_cased [] = []"
| "title_from previous_is_cased (c # cs) =
     (if previous_is_cased then [of_char (lower_char c)] else title_points c)
     @ title_from (is_cased c) cs"

definition title :: "string \<Rightarrow> nat list" where
  "title s = title_from False s"

fun join :: "string \<Rightarrow> string list \<Rightarrow> string" where
  "join sep [] = []"
| "join sep [x] = x"
| "join sep (x # y # r) = x @ sep @ join sep (y # r)"

text \<open>The strings that iterating a value yields for \<open>sep.join(value)\<close>: the items of a
  list, the characters of a string, the keys of a dictionary. A non-string item and a
  value that cannot be iterated are a \<open>TypeError\<close>.\<close>

fun str_items :: "pyval list \<Rightarrow> string list option" where
  "str_items [] = Some []"
| "str_items (PStr s # r) = map_option (\<lambda>t. s # t) (str_items r)"
| "str_items (_ # r) = None"

fun py_join :: "string \<Rightarrow> pyval \<Rightarrow> exn + string" where
  "py_join sep (PList xs) =
     (case str_items xs of Some ss \<Rightarrow> Inr (join sep ss) | None \<Rightarrow> Inl TypeError)"
| "py_join sep (PStr s) = Inr (join sep (map (\<lambda>c. [c]) s))"
| "py_join sep (PDict d) = Inr (join sep (map fst d))"
| "py_join sep _ = Inl TypeError"

section \<open>Config Loader\<close>

text \<open>
  The override file as \<open>_load_config\<close> meets it: absent, failing while it is opened or
  read, or a sequence of lines.
\<close>

datatype config_file = Missing | Unreadable | Lines "string list"

definition default_config :: dict where
  "default_config =
     [(''pipeline_name'', PStr ''auto-generated-pipeline''),
      (''environment'', PStr ''production''),
      (''target'', PStr ''aws_ec2''),
      (''instance_type'', PStr ''t2.micro''),
      (''deploy_using'', PStr ''docker-compose''),
      (''labels'', PList [PStr ''ai-generated'', PStr ''demo'']),
      (''email_notification'', PStr ''true''),
      (''email_recipient'', PStr ''demo@example.com'')]"

text \<open>A value wrapped in brackets is a list of its trimmed comma-separated items.\<close>

definition parse_value :: "string \<Rightarrow> pyval" where
  "parse_value v =
     (if v \<noteq> [] \<and> hd v = CHR ''['' \<and> last v = CHR '']''
      then PList (map (\<lambda>item. PStr (strip item)) (split_on CHR '','' (butlast (tl v))))
      else PStr v)"

text \<open>One iteration of the loop over the file's lines.\<close>

definition load_line :: "dict \<Rightarrow> string \<Rightarrow> dict" where
  "load_line config raw =
     (let line = strip raw in
      if line \<noteq> [] \<and> \<not> startswith line ''#'' \<and> CHR '':'' \<in> set line
      then (case split_first CHR '':'' line of
              (key, v) \<Rightarrow> dict_set config (strip key) (parse_value (strip v)))
      else config)"

definition load_config :: "config_file \<Rightarrow> dict" where
  "load_config f =
     (case f of
        Missing \<Rightarrow> default_config
      | Unreadable \<Rightarrow> default_config
      | Lines ls \<Rightarrow> foldl load_line [] ls)"

section \<open>Infrastructure definitions\<close>

text \<open>
  Each generated file is a fixed text with values substituted at fixed places. A file is
  modelled by the values at its places, under the name of the Terraform variable or
  attribute they fill; a place that receives the raw configuration value holds it as a
  \<^typ>\<open>pyval\<close>, and the place of a name in title case holds its code points.
  \<open>main.tf\<close>, \<open>user_data.sh\<close> and \<open>outputs.tf\<close> have no place at all.
\<close>

record variables_tf =
  v_environment :: pyval
  v_ami_id :: string
  v_ami_comment :: string
  v_instance_type :: pyval
  v_project_name :: string
  v_tags_project :: "nat list"
  v_frontend_port :: pyval
  v_backend_port :: pyval
  v_deploy_method :: pyval
  v_target_platform :: pyval

record tfvars =
  t_environment :: pyval
  t_instance_type :: pyval
  t_ami_id :: string
  t_project_name :: string
  t_tags_project :: "nat list"
  t_tags_labels :: string
  t_frontend_port :: pyval
  t_backend_port :: pyval
  t_deploy_method :: pyval
  t_target_platform :: pyval

datatype artifact =
    MainTf
  | UserDataSh
  | VariablesTf variables_tf
  | OutputsTf
  | TfVars tfvars
  | TfVarsExample tfvars
  | Other string

text \<open>The \<open>terraform\<close> path of the project: absent, a regular file, or a directory of
  files by name.\<close>

datatype node = Absent | RegularFile | Dir "string \<Rightarrow> artifact option"

definition exists_in :: "node \<Rightarrow> string \<Rightarrow> bool" where
  "exists_in n name = (case n of Dir d \<Rightarrow> d name \<noteq> None | _ \<Rightarrow> False)"

text \<open>\<open>terraform_path.mkdir(exist_ok=True)\<close>.\<close>

definition mkdir_exist_ok :: "node \<Rightarrow> exn + (string \<Rightarrow> artifact option)" where
  "mkdir_exist_ok n =
     (case n of
        Absent \<Rightarrow> Inr Map.empty
      | Dir d \<Rightarrow> Inr d
      | RegularFile \<Rightarrow> Inl FileExistsError)"

text \<open>
  The two local variables \<open>backend_port\<close> and \<open>frontend_port\<close> that
  \<open>_create_terraform_main\<close> computes before it writes its files: the configured
  override, else the port the analysis inferred, else the fixed default; then both are
  converted with \<open>int\<close>, and a failure of either conversion resets both.
\<close>

definition main_tf_ports :: "dict \<Rightarrow> dict \<Rightarrow> exn + int \<times> int" where
  "main_tf_ports config analysis =
     (case dict_get analysis ''backend'' of
        None \<Rightarrow> Inl KeyError
      | Some backend \<Rightarrow>
     (case py_get backend ''port'' (PInt 8000) of
        Inl e \<Rightarrow> Inl e
      | Inr backend_inferred \<Rightarrow>
     (case dict_get analysis ''frontend'' of
        None \<Rightarrow> Inl KeyError
      | Some frontend \<Rightarrow>
     (case py_get frontend ''port'' (PInt 3000) of
        Inl e \<Rightarrow> Inl e
      | Inr frontend_inferred \<Rightarrow>
          (let backend_port = get_or config ''backend_port'' backend_inferred;
               frontend_port = get_or config ''frontend_port'' frontend_inferred
           in case to_int backend_port of
                None \<Rightarrow> Inr (8000, 3000)
              | Some b \<Rightarrow>
                  (case to_int frontend_port of
                     None \<Rightarrow> Inr (8000, 3000)
                   | Some f \<Rightarrow> Inr (b, f)))))))"

definition create_terraform_main ::
  "dict \<Rightarrow> dict \<Rightarrow> (string \<Rightarrow> artifact option) \<Rightarrow> exn + (string \<Rightarrow> artifact option)" where
  "create_terraform_main config analysis d =
     (case main_tf_ports config analysis of
        Inl e \<Rightarrow> Inl e
      | Inr ports \<Rightarrow> Inr (d(''main.tf'' \<mapsto> MainTf, ''user_data.sh'' \<mapsto> UserDataSh)))"

text \<open>The text of \<open>variables.tf\<close> that \<open>_create_terraform_variables\<close> builds.\<close>

definition variables_content :: "dict \<Rightarrow> exn + variables_tf" where
  "variables_content config =
     (let environment = get_or config ''environment'' (PStr ''dev'');
          instance_type = get_or config ''instance_type'' (PStr ''t3.micro'')
      in case str_method (get_or config ''pipeline_name'' (PStr ''qr-generator'')) of
           Inl e \<Rightarrow> Inl e
         | Inr pipeline_name \<Rightarrow>
      (let project_name = replace ''-auto-pipeline'' [] pipeline_name
       in case str_method (get_or config ''ami'' (PStr ''latest-ubuntu'')) of
            Inl e \<Rightarrow> Inl e
          | Inr ami_config \<Rightarrow>
              (let ubuntu = contains ''ubuntu'' (lower ami_config)
               in Inr \<lparr>
                    v_environment = environment,
                    v_ami_id = (if ubuntu then ''ami-0c7217cdde317cfec''
                                else ''ami-0c02fb55956c7d316''),
                    v_ami_comment = (if ubuntu then ''Ubuntu 22.04 LTS''
                                     else ''Amazon Linux 2 AMI (HVM) - Kernel 5.10, SSD Volume Type''),
                    v_instance_type = instance_type,
                    v_project_name = project_name,
                    v_tags_project = title project_name,
                    v_frontend_port = get_or config ''frontend_port'' (PInt 3000),
                    v_backend_port = get_or config ''backend_port'' (PInt 8000),
                    v_deploy_method = get_or config ''deploy_using'' (PStr ''docker-compose''),
                    v_target_platform = get_or config ''target'' (PStr ''aws_ec2'') \<rparr>)))"

definition create_terraform_variables ::
  "dict \<Rightarrow> (string \<Rightarrow> artifact option) \<Rightarrow> exn + (string \<Rightarrow> artifact option)" where
  "create_terraform_variables config d =
     (case variables_content config of
        Inl e \<Rightarrow> Inl e
      | Inr content \<Rightarrow> Inr (d(''variables.tf'' \<mapsto> VariablesTf content)))"

text \<open>\<open>_create_terraform_outputs\<close> reads the two configured ports into local variables
  that its text does not use; nothing in it can fail.\<close>

definition create_terraform_outputs ::
  "dict \<Rightarrow> (string \<Rightarrow> artifact option) \<Rightarrow> (string \<Rightarrow> artifact option)" where
  "create_terraform_outputs config d = d(''outputs.tf'' \<mapsto> OutputsTf)"

text \<open>The text of \<open>terraform.tfvars\<close>; the \<open>.example\<close> file is the same text with two
  fixed lines replaced.\<close>

definition tfvars_content :: "dict \<Rightarrow> exn + tfvars" where
  "tfvars_content config =
     (let environment = get_or config ''environment'' (PStr ''dev'');
          instance_type = get_or config ''instance_type'' (PStr ''t3.micro'')
      in case str_method (get_or config ''pipeline_name'' (PStr ''qr-generator'')) of
           Inl e \<Rightarrow> Inl e
         | Inr pipeline_name \<Rightarrow>
      (let project_name = replace ''-auto-pipeline'' [] pipeline_name
       in case str_method (get_or config ''ami'' (PStr ''latest-ubuntu'')) of
            Inl e \<Rightarrow> Inl e
          | Inr ami_config \<Rightarrow>
      (let ami_id =
             (if contains ''ubuntu'' (lower ami_config) then ''ami-0c7217cdde317cfec''
              else if contains ''amazon'' (lower ami_config) \<or> contains ''linux'' (lower ami_config)
              then ''ami-0c02fb55956c7d316''
              else ''ami-0c7217cdde317cfec'')
       in case py_join '','' (get_or config ''labels'' (PList [PStr ''ai-generated''])) of
            Inl e \<Rightarrow> Inl e
          | Inr labels \<Rightarrow>
              Inr \<lparr>
                t_environment = environment,
                t_instance_type = instance_type,
                t_ami_id = ami_id,
                t_project_name = project_name,
                t_tags_project = title (replace ''-'' '' '' project_name),
                t_tags_labels = labels,
                t_frontend_port = get_or config ''frontend_port'' (PStr ''3000''),
                t_backend_port = get_or config ''backend_port'' (PStr ''8000''),
                t_deploy_method = get_or config ''deploy_using'' (PStr ''docker-compose''),
                t_target_platform = get_or config ''target'' (PStr ''aws_ec2'') \<rparr>)))"

definition create_terraform_tfvars ::
  "dict \<Rightarrow> (string \<Rightarrow> artifact option) \<Rightarrow> exn + (string \<Rightarrow> artifact option)" where
  "create_terraform_tfvars config d =
     (case tfvars_content config of
        Inl e \<Rightarrow> Inl e
      | Inr content \<Rightarrow>
          Inr (d(''terraform.tfvars'' \<mapsto> TfVars content,
                 ''terraform.tfvars.example'' \<mapsto> TfVarsExample content)))"

text \<open>
  \<open>_ensure_terraform_infrastructure\<close>: the state of the \<open>terraform\<close> path after the step,
  and the exception that ended it, if any. A step that raises leaves the files of the
  steps before it on disk.
\<close>

definition ensure_terraform_infrastructure :: "dict \<Rightarrow> dict \<Rightarrow> node \<Rightarrow> node \<times> exn option" where
  "ensure_terraform_infrastructure config analysis terraform =
     (if exists_in terraform ''main.tf'' \<and> exists_in terraform ''variables.tf''
         \<and> exists_in terraform ''outputs.tf''
      then (terraform, None)
      else
        (case mkdir_exist_ok terraform of
           Inl e \<Rightarrow> (terraform, Some e)
         | Inr d0 \<Rightarrow>
        (case create_terraform_main config analysis d0 of
           Inl e \<Rightarrow> (Dir d0, Some e)
         | Inr d1 \<Rightarrow>
        (case create_terraform_variables config d1 of
           Inl e \<Rightarrow> (Dir d1, Some e)
         | Inr d2 \<Rightarrow>
        (let d3 = create_terraform_outputs config d2
         in case create_terraform_tfvars config d3 of
              Inl e \<Rightarrow> (Dir d3, Some e)
            | Inr d4 \<Rightarrow> (Dir d4, None))))))"

section \<open>Advisory Enrichment\<close>

text \<open>
  What the one HTTP request of \<open>_call_openai_api\<close> comes to: \<open>requests.post\<close> raises
  (timeout, connection failure), or a response arrives with its status code, its text
  and the result of \<open>response.json()\<close> (\<open>None\<close> when that call raises). The theorems hold
  for every outcome, hence for whatever the service does with the prompt it is sent.
\<close>

datatype http_outcome =
    PostRaises string
  | Response nat string "pyval option"

text \<open>
  The \<open>try\<close> block of \<open>_call_openai_api\<close>. \<open>loads\<close> is the library's \<open>json.loads\<close> on a
  string, \<open>None\<close> for \<open>JSONDecodeError\<close>; given anything but a string it raises
  \<open>TypeError\<close>. The function's result \<open>None\<close> is \<^term>\<open>PNone\<close>.
\<close>

definition message_content :: "pyval \<Rightarrow> exn + pyval" where
  "message_content result =
     (case subscript result ''choices'' of
        Inl e \<Rightarrow> Inl e
      | Inr choices \<Rightarrow>
     (case subscript0 choices of
        Inl e \<Rightarrow> Inl e
      | Inr choice \<Rightarrow>
     (case subscript choice ''message'' of
        Inl e \<Rightarrow> Inl e
      | Inr message \<Rightarrow> subscript message ''content'')))"

definition api_attempt ::
  "(string \<Rightarrow> pyval option) \<Rightarrow> http_outcome \<Rightarrow> bool \<Rightarrow> exn + pyval" where
  "api_attempt loads outcome fail_on_error =
     (case outcome of
        PostRaises msg \<Rightarrow> Inl (LibraryError msg)
      | Response status_code text body \<Rightarrow>
          if status_code = 200 then
            (case body of
               None \<Rightarrow> Inl (LibraryError ''response.json'')
             | Some result \<Rightarrow>
                 (case message_content result of
                    Inl e \<Rightarrow> Inl e
                  | Inr (PStr content) \<Rightarrow>
                      (case loads content of
                         Some recommendations \<Rightarrow> Inr recommendations
                       | None \<Rightarrow> Inr (PDict [(''recommendations'', PStr content)]))
                  | Inr _ \<Rightarrow> Inl TypeError))
          else if fail_on_error then Inl (ApiError status_code text)
          else Inr PNone)"

text \<open>\<open>_call_openai_api\<close>: the handler around the block wraps any exception when
  \<open>fail_on_error\<close> is set and returns \<open>None\<close> otherwise.\<close>

definition call_openai_api ::
  "(string \<Rightarrow> pyval option) \<Rightarrow> http_outcome \<Rightarrow> bool \<Rightarrow> exn + pyval" where
  "call_openai_api loads outcome fail_on_error =
     (case api_attempt loads outcome fail_on_error of
        Inr v \<Rightarrow> Inr v
      | Inl e \<Rightarrow> if fail_on_error then Inl (AccessFailed e) else Inr PNone)"

text \<open>The reduced context that the prompt embeds.\<close>

definition analysis_context :: "dict \<Rightarrow> exn + dict" where
  "analysis_context analysis =
     (case py_get (get_or analysis ''infrastructure'' (PDict [])) ''terraform_exists'' (PBool False) of
        Inl e \<Rightarrow> Inl e
      | Inr infrastructure_exists \<Rightarrow>
     (case py_get (get_or analysis ''docker'' (PDict [])) ''compose_exists'' (PBool False) of
        Inl e \<Rightarrow> Inl e
      | Inr docker_setup \<Rightarrow>
          Inr [(''project_type'', PStr ''web_application''),
               (''frontend'', get_or analysis ''frontend'' (PDict [])),
               (''backend'', get_or analysis ''backend'' (PDict [])),
               (''infrastructure_exists'', infrastructure_exists),
               (''docker_setup'', docker_setup)]))"

definition no_token_message :: string where
  "no_token_message = ''AI mode requested but no OpenAI API token provided. Use --openai-token or set OPENAI_API_TOKEN environment variable.''"

definition no_recommendations_message :: string where
  "no_recommendations_message = ''Failed to get AI recommendations despite explicit AI mode request''"

text \<open>The \<open>try\<close> block of \<open>_ai_enhance_analysis\<close>.\<close>

definition enhance_attempt ::
  "(string \<Rightarrow> pyval option) \<Rightarrow> http_outcome \<Rightarrow> dict \<Rightarrow> bool \<Rightarrow> exn + dict" where
  "enhance_attempt loads outcome analysis fail_on_ai_error =
     (case analysis_context analysis of
        Inl e \<Rightarrow> Inl e
      | Inr prompt_context \<Rightarrow>
     (case call_openai_api loads outcome fail_on_ai_error of
        Inl e \<Rightarrow> Inl e
      | Inr ai_recommendations \<Rightarrow>
          if truthy ai_recommendations
          then Inr (dict_set analysis ''ai_recommendations'' ai_recommendations)
          else if fail_on_ai_error then Inl (Exception no_recommendations_message)
          else Inr analysis))"

text \<open>
  \<open>_ai_enhance_analysis\<close>. \<open>openai_token\<close> is the generator's credential, \<open>None\<close> or a
  string; an empty string counts as no credential, as \<open>not self.openai_token\<close> does.
\<close>

definition ai_enhance_analysis ::
  "string option \<Rightarrow> (string \<Rightarrow> pyval option) \<Rightarrow> http_outcome \<Rightarrow> dict \<Rightarrow> bool \<Rightarrow> exn + dict" where
  "ai_enhance_analysis openai_token loads outcome analysis fail_on_ai_error =
     (if openai_token = None \<or> openai_token = Some []
      then (if fail_on_ai_error then Inl (Exception no_token_message) else Inr analysis)
      else
        (case enhance_attempt loads outcome analysis fail_on_ai_error of
           Inr enhanced \<Rightarrow> Inr enhanced
         | Inl e \<Rightarrow> if fail_on_ai_error then Inl e else Inr analysis))"

section \<open>Project Analyzer\<close>

text \<open>
  The analyzer reads the project tree; the model takes what it reads as a record of
  observations. A source file scanned for a port is \<open>None\<close> when reading it raises (the
  scan skips it). \<open>package.json\<close> is absent, fails to open or decode, or decodes to a
  value. Files read outside any handler (\<open>requirements.txt\<close>, \<open>main.py\<close>) are taken to be
  readable when they exist.
\<close>

datatype json_file = NoFile | BadJson | Json pyval

record frontend_dir =
  fe_path :: string
  fe_package_json :: json_file
  fe_index_html :: bool
  fe_js_files :: "string option list"

record backend_dir =
  be_path :: string
  be_requirements_txt :: "string option"
  be_main_py :: "string option"
  be_py_files :: "string option list"

text \<open>The \<open>.git\<close> directory, when there is one, with the output of the two
  \<open>git\<close> commands; \<open>None\<close> where running the command raises.\<close>

record git_dir =
  git_branch :: "string option"
  git_remote :: "string option"

record project =
  pr_frontend :: "frontend_dir option"
  pr_backend :: "backend_dir option"
  pr_terraform_path :: string
  pr_terraform_files :: "string list option"
  pr_compose :: bool
  pr_dockerfiles :: "string list"
  pr_git :: "git_dir option"

text \<open>
  \<open>_detect_port_from_files\<close>. \<open>scan\<close> is the search of the five regular expressions in
  one text, in their order, giving the number of the first that matches; it is a
  parameter, and every theorem holds for each such function.
\<close>

fun detect_port_from_files :: "(string \<Rightarrow> int option) \<Rightarrow> string option list \<Rightarrow> int \<Rightarrow> int" where
  "detect_port_from_files scan [] dflt = dflt"
| "detect_port_from_files scan (None # files) dflt = detect_port_from_files scan files dflt"
| "detect_port_from_files scan (Some content # files) dflt =
     (case scan content of
        Some port \<Rightarrow> port
      | None \<Rightarrow> detect_port_from_files scan files dflt)"

definition detect_python_framework :: "backend_dir \<Rightarrow> string" where
  "detect_python_framework backend =
     (case be_main_py backend of
        None \<Rightarrow> ''unknown''
      | Some content \<Rightarrow>
          if contains ''fastapi'' (lower content) then ''fastapi''
          else if contains ''flask'' (lower content) then ''flask''
          else if contains ''django'' (lower content) then ''django''
          else ''unknown'')"

text \<open>The assignments of the \<open>package.json\<close> branch: \<open>framework\<close> is set before the first
  \<open>.get\<close> on the decoded value, which raises when that value is not a dictionary; the
  handler then keeps what was assigned.\<close>

definition node_fields :: "dict \<Rightarrow> pyval \<Rightarrow> dict" where
  "node_fields analysis package_data =
     (let a1 = dict_set analysis ''framework'' (PStr ''node'')
      in case package_data of
           PDict d \<Rightarrow>
             foldl (\<lambda>a (k, v). dict_set a k v) a1
               [(''dependencies'', get_or d ''dependencies'' (PDict [])),
                (''scripts'', get_or d ''scripts'' (PDict [])),
                (''test_command'', PStr ''npm test''),
                (''build_command'', PStr ''npm run build''),
                (''lint_command'', PStr ''npm run lint''),
                (''install_command'', PStr ''npm install'')]
         | _ \<Rightarrow> a1)"

definition vanilla_fields :: "dict \<Rightarrow> dict" where
  "vanilla_fields analysis =
     foldl (\<lambda>a (k, v). dict_set a k v) analysis
       [(''framework'', PStr ''vanilla-js''),
        (''dependencies'', PDict []),
        (''test_command'', PStr ''echo \"No tests defined for vanilla JS\"''),
        (''build_command'', PStr ''echo \"No build step needed\"''),
        (''lint_command'', PStr ''echo \"No linting configured\"''),
        (''install_command'', PStr ''echo \"No dependencies to install\"'')]"

definition analyze_frontend :: "(string \<Rightarrow> int option) \<Rightarrow> frontend_dir option \<Rightarrow> dict" where
  "analyze_frontend scan frontend =
     (case frontend of
        None \<Rightarrow> [(''exists'', PBool False)]
      | Some fe \<Rightarrow>
          (let a0 = [(''exists'', PBool True), (''path'', PStr (fe_path fe))];
               a1 = (case fe_package_json fe of
                       Json package_data \<Rightarrow> node_fields a0 package_data
                     | BadJson \<Rightarrow> a0
                     | NoFile \<Rightarrow> if fe_index_html fe then vanilla_fields a0 else a0)
           in dict_set a1 ''port'' (PInt (detect_port_from_files scan (fe_js_files fe) 3000))))"

text \<open>The requirement lines: trimmed, empty ones dropped.\<close>

definition requirement_lines :: "string \<Rightarrow> pyval" where
  "requirement_lines text =
     PList (map (\<lambda>req. PStr (strip req))
              (filter (\<lambda>req. strip req \<noteq> []) (split_on (CHR 0x0A) (strip text))))"

definition analyze_backend :: "(string \<Rightarrow> int option) \<Rightarrow> backend_dir option \<Rightarrow> dict" where
  "analyze_backend scan backend =
     (case backend of
        None \<Rightarrow> [(''exists'', PBool False)]
      | Some be \<Rightarrow>
          (let a0 = [(''exists'', PBool True), (''path'', PStr (be_path be))]
           in if be_requirements_txt be \<noteq> None \<or> be_main_py be \<noteq> None then
                (let a1 = dict_set a0 ''language'' (PStr ''python'');
                     a2 = dict_set a1 ''framework'' (PStr (detect_python_framework be));
                     a3 = (case be_requirements_txt be of
                             Some text \<Rightarrow> dict_set a2 ''dependencies'' (requirement_lines text)
                           | None \<Rightarrow> a2);
                     a4 = dict_set a3 ''test_command'' (PStr ''pytest'');
                     a5 = dict_set a4 ''lint_command'' (PStr ''flake8'');
                     a6 = dict_set a5 ''install_command'' (PStr ''pip install -r requirements.txt'')
                 in dict_set a6 ''port'' (PInt (detect_port_from_files scan (be_py_files be) 8000)))
              else a0))"

definition analyze_infrastructure :: "string \<Rightarrow> string list option \<Rightarrow> dict" where
  "analyze_infrastructure terraform_path tf_files =
     (let analysis = [(''terraform_exists'', PBool (tf_files \<noteq> None)),
                      (''terraform_path'', PStr terraform_path)]
      in case tf_files of
           Some files \<Rightarrow> dict_set analysis ''terraform_files'' (PList (map PStr files))
         | None \<Rightarrow> analysis)"

definition analyze_docker :: "bool \<Rightarrow> string list \<Rightarrow> dict" where
  "analyze_docker compose_exists dockerfiles =
     [(''compose_exists'', PBool compose_exists), (''dockerfiles'', PList (map PStr dockerfiles))]"

definition analyze_git :: "git_dir option \<Rightarrow> dict" where
  "analyze_git git =
     (case git of
        None \<Rightarrow> [(''is_git_repo'', PBool False)]
      | Some g \<Rightarrow>
          (let analysis = [(''is_git_repo'', PBool True)]
           in case git_branch g of
                None \<Rightarrow> analysis
              | Some branch \<Rightarrow>
                  (let a1 = dict_set analysis ''current_branch'' (PStr (strip branch))
                   in case git_remote g of
                        None \<Rightarrow> a1
                      | Some url \<Rightarrow> dict_set a1 ''remote_url'' (PStr (strip url)))))"

definition analyze_project :: "(string \<Rightarrow> int option) \<Rightarrow> project \<Rightarrow> dict" where
  "analyze_project scan p =
     [(''frontend'', PDict (analyze_frontend scan (pr_frontend p))),
      (''backend'', PDict (analyze_backend scan (pr_backend p))),
      (''infrastructure'', PDict (analyze_infrastructure (pr_terraform_path p) (pr_terraform_files p))),
      (''docker'', PDict (analyze_docker (pr_compose p) (pr_dockerfiles p))),
      (''git'', PDict (analyze_git (pr_git p)))]"

section \<open>The data-formatting operation of the image-generation collaborator\<close>

datatype http_exception = HTTPException nat string

text \<open>The text that \<open>$\<close> lets a pattern end at: the whole text, or the text without its
  final newline.\<close>

definition before_final_newline :: "string \<Rightarrow> string" where
  "before_final_newline s = (if s \<noteq> [] \<and> last s = CHR 0x0A then butlast s else s)"

definition is_letter :: "char \<Rightarrow> bool" where
  "is_letter c = (is_lower c \<or> is_upper c)"

text \<open>
  \<open>re.match(r'^[a-zA-Z0-9._%+-]+@[a-zA-Z0-9.-]+\.[a-zA-Z]{2,}$', data)\<close>: the local part
  is the text before the first \<open>@\<close>, and the top-level domain is the text after the last
  dot.
\<close>

definition email_match :: "string \<Rightarrow> bool" where
  "email_match s =
     (let t = before_final_newline s;
          local_part = takeWhile (\<lambda>c. c \<noteq> CHR ''@'') t;
          after = tl (dropWhile (\<lambda>c. c \<noteq> CHR ''@'') t);
          tld = rev (takeWhile (\<lambda>c. c \<noteq> CHR ''.'') (rev after));
          domain = rev (tl (dropWhile (\<lambda>c. c \<noteq> CHR ''.'') (rev after)))
      in CHR ''@'' \<in> set t
         \<and> local_part \<noteq> []
         \<and> (\<forall>c \<in> set local_part. is_letter c \<or> is_digit c \<or> c \<in> set ''._%+-'')
         \<and> CHR ''.'' \<in> set after
         \<and> domain \<noteq> []
         \<and> (\<forall>c \<in> set domain. is_letter c \<or> is_digit c \<or> c \<in> set ''.-'')
         \<and> 2 \<le> length tld
         \<and> (\<forall>c \<in> set tld. is_letter c))"

text \<open>
  \<open>re.match(r'^https?://[^\s/$.?#].[^\s]*$', data)\<close> on a text that starts with one of
  the two schemes: \<open>rest\<close> is what follows the scheme.
\<close>

definition url_rest_match :: "string \<Rightarrow> bool" where
  "url_rest_match rest =
     (case rest of
        a # b # r \<Rightarrow>
          \<not> is_space a \<and> a \<notin> set ''/$.?#'' \<and> b \<noteq> CHR 0x0A
          \<and> (\<forall>c \<in> set (before_final_newline r). \<not> is_space c)
      | _ \<Rightarrow> False)"

definition url_match :: "string \<Rightarrow> bool" where
  "url_match s =
     (if startswith s ''https://'' then url_rest_match (drop 8 s)
      else if startswith s ''http://'' then url_rest_match (drop 7 s)
      else False)"

text \<open>
  \<open>format_data_for_qr\<close>. In the \<open>wifi\<close> branch the security mode is compared as code
  points, since \<open>upper\<close> gives code points; a mode that is none of the three words, and
  the word \<open>WPA\<close> itself, both come out as \<open>WPA\<close>.
\<close>

definition format_data_for_qr :: "string \<Rightarrow> string \<Rightarrow> http_exception + string" where
  "format_data_for_qr data data_type =
     (if data_type = ''email'' then
        (if \<not> email_match data then Inl (HTTPException 400 ''Invalid email format'')
         else Inr (''mailto:'' @ data))
      else if data_type = ''phone'' then
        (let phone = filter (\<lambda>c. is_digit c \<or> c = CHR ''+'') data
         in if phone = [] \<or> length phone < 7 then Inl (HTTPException 400 ''Invalid phone number'')
            else Inr (''tel:'' @ phone))
      else if data_type = ''url'' then
        (let data1 = (if \<not> (startswith data ''http://'' \<or> startswith data ''https://'')
                      then ''https://'' @ data else data)
         in if \<not> url_match data1 then Inl (HTTPException 400 ''Invalid URL format'')
            else Inr data1)
      else if data_type = ''wifi'' then
        (let parts = split_on CHR '','' data
         in if length parts < 2
            then Inl (HTTPException 400 ''WiFi format: SSID,Password,Security'')
            else
              (let ssid = strip (parts ! 0);
                   password = strip (parts ! 1);
                   security = (if 2 < length parts then upper (strip (parts ! 2))
                               else map of_char ''WPA'');
                   security1 = (if security = map of_char ''WEP'' then ''WEP''
                                else if security = map of_char ''NOPASS'' then ''NOPASS''
                                else ''WPA'')
               in Inr (''WIFI:T:'' @ security1 @ '';S:'' @ ssid @ '';P:'' @ password @ '';;'')))
      else Inr data)"

section \<open>Example inputs\<close>

text \<open>A project tree with none of the inspected paths, and one with a Python backend
  whose source mentions port 9090.\<close>

definition bare_project :: project where
  "bare_project =
     \<lparr> pr_frontend = None, pr_backend = None, pr_terraform_path = ''terraform'',
       pr_terraform_files = None, pr_compose = False, pr_dockerfiles = [], pr_git = None \<rparr>"

definition sample_project :: project where
  "sample_project =
     bare_project \<lparr> pr_backend := Some \<lparr> be_path = ''backend'',
       be_requirements_txt = Some ''fastapi'', be_main_py = Some ''port = 9090'',
       be_py_files = [Some ''port = 9090''] \<rparr> \<rparr>"

text \<open>A reply body of the advisory service whose message content is the given text.\<close>

definition reply_body :: "string \<Rightarrow> pyval" where
  "reply_body content =
     PDict [(''choices'', PList [PDict [(''message'', PDict [(''content'', PStr content)])]])]"

section \<open>Facts about the text operations\<close>

lemma split_on_nonempty: "split_on sep s \<noteq> []"
  by (induction s) (auto simp: Let_def)

lemma split_on_no_sep: "sep \<notin> set s \<Longrightarrow> split_on sep s = [s]"
  by (induction s) (auto simp: Let_def)

lemma split_on_append: "sep \<notin> set a \<Longrightarrow> split_on sep (a @ sep # b) = a # split_on sep b"
  by (induction a) (auto simp: Let_def)

lemma length_split_on: "length (split_on sep s) = Suc (length (filter (\<lambda>c. c = sep) s))"
  using split_on_nonempty [of sep]
  by (induction s) (auto simp: Let_def)

lemma is_digit_not_dot: "is_digit c \<Longrightarrow> c \<noteq> CHR ''.''"
  by (auto simp: is_digit_def)

lemma is_digit_not_sign: "is_digit c \<Longrightarrow> c \<noteq> CHR ''-'' \<and> c \<noteq> CHR ''+'' \<and> c \<noteq> CHR ''_''"
  by (auto simp: is_digit_def)

lemma is_digit_not_space: "is_digit c \<Longrightarrow> \<not> is_space c \<and> \<not> is_c_space c"
  by (auto simp: is_digit_def is_space_def is_c_space_def)

lemma is_number_no_dot: "is_number s \<Longrightarrow> CHR ''.'' \<notin> set s"
  by (auto simp: is_number_def dest: is_digit_not_dot)

lemma strip_with_id:
  assumes "s \<noteq> []" "\<not> p (hd s)" "\<not> p (last s)"
  shows "strip_with p s = s"
proof -
  have "dropWhile p s = s" using assms by (cases s) auto
  moreover have "dropWhile p (rev s) = rev s"
    using assms by (cases "rev s") (auto simp: last_rev [symmetric] simp del: last_rev)
  ultimately show ?thesis by (simp add: strip_with_def)
qed

lemma grouped_digits: "s \<noteq> [] \<Longrightarrow> \<forall>c \<in> set s. is_digit c \<Longrightarrow> grouped s"
proof (induction s rule: grouped.induct)
  case (3 c d r)
  then show ?case using is_digit_not_sign [of d] by auto
qed auto

lemma py_int_digits:
  assumes "is_number s"
  shows "py_int s = (if length s \<le> max_str_digits then Some (int (digits_val s)) else None)"
proof -
  from assms obtain c r where s: "s = c # r" by (cases s) (auto simp: is_number_def)
  have d: "\<forall>x \<in> set s. is_digit x" using assms by (simp add: is_number_def)
  have "is_digit (hd s)" "is_digit (last s)" using d s by auto
  then have st: "strip_with is_c_space s = s"
    using s is_digit_not_space by (intro strip_with_id) auto
  have f: "filter is_digit s = s" using d by (simp add: filter_id_conv)
  have g: "grouped s" using d s by (intro grouped_digits) auto
  have "c \<noteq> CHR ''-''" "c \<noteq> CHR ''+''" using d s is_digit_not_sign [of c] by auto
  then show ?thesis using st f g s by (simp add: py_int_def unsigned_int_def)
qed

lemma py_int_number:
  "is_number s \<Longrightarrow> length s \<le> max_str_digits \<Longrightarrow> py_int s = Some (int (digits_val s))"
  by (simp add: py_int_digits)

lemma py_int_over_limit:
  "is_number s \<Longrightarrow> max_str_digits < length s \<Longrightarrow> py_int s = None"
  by (simp add: py_int_digits)

lemma format_int_nat:
  "format_int (int n) =
     (if max_str_digits < length (show_nat n) then None else Some (show_nat n))"
  by (simp add: format_int_def)

lemma nth_digit: "n < 10 \<Longrightarrow> is_digit (''0123456789'' ! n) \<and> digit_val (''0123456789'' ! n) = n"
  by (auto simp: eval_nat_numeral less_Suc_eq is_digit_def digit_val_def)

lemma show_nat_number: "is_number (show_nat n)"
proof (induction n rule: show_nat.induct)
  case (1 n)
  show ?case
  proof (cases "n < 10")
    case True
    then show ?thesis using nth_digit [of n] by (subst show_nat.simps) (simp add: is_number_def)
  next
    case False
    then show ?thesis using 1 nth_digit [of "n mod 10"]
      by (subst show_nat.simps) (auto simp: is_number_def)
  qed
qed

lemma digits_val_snoc: "digits_val (s @ [c]) = 10 * digits_val s + digit_val c"
  by (simp add: digits_val_def)

lemma digits_val_show_nat: "digits_val (show_nat n) = n"
proof (induction n rule: show_nat.induct)
  case (1 n)
  show ?case
  proof (cases "n < 10")
    case True
    then show ?thesis using nth_digit [of n] by (subst show_nat.simps) (simp add: digits_val_def)
  next
    case False
    then show ?thesis using 1 nth_digit [of "n mod 10"]
      by (subst show_nat.simps) (simp add: digits_val_snoc)
  qed
qed

lemma strip_version:
  assumes "is_number X" "is_number Z"
  shows "strip (X @ ''.'' @ Y @ ''.'' @ Z) = X @ ''.'' @ Y @ ''.'' @ Z"
proof -
  have "hd (X @ ''.'' @ Y @ ''.'' @ Z) = hd X" using assms by (simp add: is_number_def)
  moreover have "last (X @ ''.'' @ Y @ ''.'' @ Z) = last Z" using assms by (simp add: is_number_def)
  moreover have "is_digit (hd X)" "is_digit (last Z)" using assms by (auto simp: is_number_def)
  ultimately show ?thesis
    unfolding strip_def using is_digit_not_space by (intro strip_with_id) auto
qed

lemma length_show_nat_mono: "m \<le> n \<Longrightarrow> length (show_nat m) \<le> length (show_nat n)"
proof (induction n arbitrary: m rule: show_nat.induct)
  case (1 n)
  show ?case
  proof (cases "n < 10")
    case True
    then have "m < 10" using "1.prems" by simp
    then show ?thesis using True
      by (subst show_nat.simps, subst (2) show_nat.simps) simp
  next
    case False
    show ?thesis
    proof (cases "m < 10")
      case True
      then show ?thesis using False
        by (subst show_nat.simps, subst (2) show_nat.simps) simp
    next
      case m: False
      have "m div 10 \<le> n div 10" using "1.prems" by (rule div_le_mono)
      from "1.IH" [OF False this] show ?thesis using False m
        by (subst show_nat.simps, subst (2) show_nat.simps) simp
    qed
  qed
qed

lemma new_version_number:
  assumes "is_number X" "is_number Y" "is_number Z"
  shows "new_version (X @ ''.'' @ Y @ ''.'' @ Z) =
    (if length Z \<le> max_str_digits \<and> length (show_nat (Suc (digits_val Z))) \<le> max_str_digits
     then X @ ''.'' @ Y @ ''.'' @ show_nat (Suc (digits_val Z))
     else ''0.1.1'')"
proof -
  have "split_on CHR ''.'' (X @ ''.'' @ Y @ ''.'' @ Z) = [X, Y, Z]"
    using assms by (simp add: split_on_append split_on_no_sep is_number_no_dot)
  moreover have "format_int (int (digits_val Z) + 1) =
      (if max_str_digits < length (show_nat (Suc (digits_val Z))) then None
       else Some (show_nat (Suc (digits_val Z))))"
    using format_int_nat [of "Suc (digits_val Z)"] by (simp add: add.commute)
  ultimately show ?thesis
    using py_int_digits [OF assms(3)] by (simp add: new_version_def Let_def)
qed

lemma increment_version_absent: "increment_version None = Some ''0.1.1''"
  by (simp add: increment_version_def new_version_def py_int_def strip_with_def
      is_c_space_def unsigned_int_def is_digit_def digits_val_def digit_val_def
      format_int_def show_nat.simps max_str_digits_def)

section \<open>Facts about the configuration and the generated files\<close>

lemma variables_content_instance_type:
  assumes "variables_content config = Inr v"
  shows "v_instance_type v = get_or config ''instance_type'' (PStr ''t3.micro'')"
  using assms by (auto simp: variables_content_def Let_def split: sum.splits)

lemma example_config:
  "load_config (Lines [''# override'', ''environment: staging'', ''labels: [x, y]''])
     = [(''environment'', PStr ''staging''), (''labels'', PList [PStr ''x'', PStr ''y''])]"
  by (simp add: load_config_def load_line_def strip_def strip_with_def is_space_def
      startswith_def split_first_def parse_value_def dict_set_def)

lemmas eval_defs =
  load_config_def load_line_def strip_def strip_with_def is_space_def startswith_def
  split_first_def parse_value_def dict_set_def dict_get_def get_or_def Let_def

lemmas analyze_defs =
  analyze_project_def analyze_frontend_def analyze_backend_def analyze_infrastructure_def
  analyze_docker_def analyze_git_def bare_project_def sample_project_def
  detect_python_framework_def requirement_lines_def lower_def lower_char_def latin_capitals_def latin_smalls_def

text \<open>On a record of the analyzer, the two ports that \<open>_create_terraform_main\<close> computes follow
  the rule of its comment: override, else inferred port, else default, and both defaults
  when either conversion fails.\<close>

lemma main_tf_ports_rule:
  "main_tf_ports config (analyze_project scan p) =
     Inr (case (to_int (get_or config ''backend_port''
                          (get_or (analyze_backend scan (pr_backend p)) ''port'' (PInt 8000))),
                to_int (get_or config ''frontend_port''
                          (get_or (analyze_frontend scan (pr_frontend p)) ''port'' (PInt 3000)))) of
            (Some b, Some f) \<Rightarrow> (b, f)
          | _ \<Rightarrow> (8000, 3000))"
  by (simp add: main_tf_ports_def analyze_project_def dict_get_def split: option.splits)

section \<open>Facts about the advisory call\<close>

lemma call_openai_api_modes:
  "(\<exists>e. call_openai_api loads outcome True = Inl (AccessFailed e))
     \<and> call_openai_api loads outcome False = Inr PNone
   \<or> (\<exists>v. call_openai_api loads outcome True = Inr v
          \<and> call_openai_api loads outcome False = Inr v)"
proof (cases outcome)
  case (PostRaises msg)
  then show ?thesis by (simp add: call_openai_api_def api_attempt_def)
next
  case (Response code reply body)
  show ?thesis
  proof (cases "code = 200")
    case True
    then have "api_attempt loads outcome True = api_attempt loads outcome False"
      using Response by (simp add: api_attempt_def)
    then show ?thesis
      by (cases "api_attempt loads outcome False") (simp_all add: call_openai_api_def)
  next
    case False
    then show ?thesis using Response by (simp add: call_openai_api_def api_attempt_def)
  qed
qed

lemma call_openai_api_transport_failure:
  assumes "outcome = PostRaises msg \<or> (outcome = Response status_code text body \<and> status_code \<noteq> 200)"
  shows "(\<exists>e. call_openai_api loads outcome True = Inl (AccessFailed e))
         \<and> call_openai_api loads outcome False = Inr PNone"
  using assms by (auto simp: call_openai_api_def api_attempt_def)

lemma enhance_attempt_modes:
  "(\<exists>e. enhance_attempt loads outcome analysis True = Inl e)
     \<and> (enhance_attempt loads outcome analysis False = Inr analysis
          \<or> (\<exists>e. enhance_attempt loads outcome analysis False = Inl e))
   \<or> (\<exists>v. truthy v
          \<and> enhance_attempt loads outcome analysis True = Inr (dict_set analysis ''ai_recommendations'' v)
          \<and> enhance_attempt loads outcome analysis False = Inr (dict_set analysis ''ai_recommendations'' v))"
proof (cases "analysis_context analysis")
  case (Inl e)
  then show ?thesis by (simp add: enhance_attempt_def)
next
  case (Inr ctx)
  from call_openai_api_modes [of loads outcome] show ?thesis
  proof
    assume "(\<exists>e. call_openai_api loads outcome True = Inl (AccessFailed e))
      \<and> call_openai_api loads outcome False = Inr PNone"
    then show ?thesis using Inr by (auto simp: enhance_attempt_def)
  next
    assume "\<exists>v. call_openai_api loads outcome True = Inr v
      \<and> call_openai_api loads outcome False = Inr v"
    then obtain v where "call_openai_api loads outcome True = Inr v"
      "call_openai_api loads outcome False = Inr v" by blast
    then show ?thesis using Inr by (cases "truthy v") (auto simp: enhance_attempt_def)
  qed
qed

lemma dict_get_dict_set:
  "dict_get (dict_set d k v) k' = (if k' = k then Some v else dict_get d k')"
  by (simp add: dict_get_def dict_set_def update_conv')

lemma dict_set_absent:
  "dict_get d k = None \<Longrightarrow> dict_set d k v = d @ [(k, v)]"
  unfolding dict_get_def dict_set_def
  by (induction d) (auto split: if_splits)

lemma enhance_attempt_result:
  assumes "enhance_attempt loads outcome analysis fail = Inr enhanced"
  shows "enhanced = analysis \<or> (\<exists>v. truthy v \<and> enhanced = dict_set analysis ''ai_recommendations'' v)"
  using assms by (auto simp: enhance_attempt_def split: sum.splits if_splits)

lemma ai_enhance_analysis_result:
  assumes "ai_enhance_analysis openai_token loads outcome analysis fail = Inr enhanced"
  shows "enhanced = analysis \<or> (\<exists>v. truthy v \<and> enhanced = dict_set analysis ''ai_recommendations'' v)"
  using assms enhance_attempt_result [of loads outcome analysis fail enhanced]
  by (auto simp: ai_enhance_analysis_def split: sum.splits if_splits)

lemma analyze_project_no_annotation:
  "dict_get (analyze_project scan p) ''ai_recommendations'' = None"
  by (simp add: analyze_project_def dict_get_def)

text \<open>For any record: what enrichment returns is the input or the input with the
  annotation set, and only the annotation key can change.\<close>

lemma ai_enhance_analysis_frame:
  assumes "ai_enhance_analysis openai_token loads outcome analysis fail = Inr enhanced"
  shows "(enhanced = analysis \<or> (\<exists>v. enhanced = dict_set analysis ''ai_recommendations'' v))
         \<and> (\<forall>k. k \<noteq> ''ai_recommendations'' \<longrightarrow> dict_get enhanced k = dict_get analysis k)
         \<and> (dict_get analysis ''ai_recommendations'' = None \<longrightarrow>
               enhanced = analysis \<or> (\<exists>v. enhanced = analysis @ [(''ai_recommendations'', v)]))"
  using ai_enhance_analysis_result [OF assms]
  by (auto simp: dict_get_dict_set dict_set_absent)

section \<open>Version bump: theorems\<close>

text \<open>
  Claim C6, as stated, fails: a valid version whose patch number has more than 4300
  digits is not incremented. \<open>int\<close> refuses the literal, the bare \<open>except\<close> catches the
  \<open>ValueError\<close>, and the file gets \<open>0.1.1\<close>.
\<close>

theorem version_bump_valid_counterexample:
  "is_number ''1'' \<and> is_number ''2'' \<and> is_number (replicate 4301 CHR ''7'')
   \<and> increment_version (Some (''1'' @ ''.'' @ ''2'' @ ''.'' @ replicate 4301 CHR ''7'')) = Some ''0.1.1''
   \<and> increment_version (Some (''1'' @ ''.'' @ ''2'' @ ''.'' @ replicate 4301 CHR ''7''))
       \<noteq> Some (''1'' @ ''.'' @ ''2'' @ ''.'' @ show_nat (digits_val (replicate 4301 CHR ''7'') + 1))"
proof -
  have n: "is_number ''1''" "is_number ''2''" "is_number (replicate 4301 CHR ''7'')"
    by (simp_all add: is_number_def is_digit_def)
  have "new_version (''1'' @ ''.'' @ ''2'' @ ''.'' @ replicate 4301 CHR ''7'') = ''0.1.1''"
    using new_version_number [OF n] by (simp add: max_str_digits_def)
  moreover have "strip (''1'' @ ''.'' @ ''2'' @ ''.'' @ replicate 4301 CHR ''7'')
      = ''1'' @ ''.'' @ ''2'' @ ''.'' @ replicate 4301 CHR ''7''"
    by (rule strip_version [OF n(1) n(3)])
  ultimately have "increment_version (Some (''1'' @ ''.'' @ ''2'' @ ''.'' @ replicate 4301 CHR ''7'')) = Some ''0.1.1''"
    by (simp add: increment_version_def)
  then show ?thesis using n by simp
qed

text \<open>
  Claim C6, amended. For a version file whose stripped content is \<open>X.Y.Z\<close>, three decimal
  numbers, where \<open>Z\<close> is written with at most 4300 digits: if \<open>Z+1\<close> has at most 4300
  digits, one run of the version bump rewrites the file to \<open>X.Y.(Z+1)\<close> with \<open>X\<close> and \<open>Y\<close>
  kept as they are written; if \<open>Z+2\<close> has at most 4300 digits, two consecutive runs give
  \<open>X.Y.(Z+2)\<close>. When \<open>Z\<close> or \<open>Z+1\<close> has more than 4300 digits, the conversion limit of the
  interpreter, one run leaves \<open>0.1.1\<close>.
\<close>

theorem version_bump_valid:
  assumes "is_number X" "is_number Y" "is_number Z"
    and "strip text = X @ ''.'' @ Y @ ''.'' @ Z"
  shows "(length Z \<le> max_str_digits \<and> length (show_nat (digits_val Z + 1)) \<le> max_str_digits \<longrightarrow>
            increment_version (Some text)
              = Some (X @ ''.'' @ Y @ ''.'' @ show_nat (digits_val Z + 1)))
    \<and> (length Z \<le> max_str_digits \<and> length (show_nat (digits_val Z + 2)) \<le> max_str_digits \<longrightarrow>
            increment_version (increment_version (Some text))
              = Some (X @ ''.'' @ Y @ ''.'' @ show_nat (digits_val Z + 2)))
    \<and> (max_str_digits < length Z \<or> max_str_digits < length (show_nat (digits_val Z + 1)) \<longrightarrow>
            increment_version (Some text) = Some ''0.1.1'')"
proof (intro conjI impI)
  let ?W = "show_nat (Suc (digits_val Z))"
  have first: "increment_version (Some text) =
      Some (if length Z \<le> max_str_digits \<and> length ?W \<le> max_str_digits
            then X @ ''.'' @ Y @ ''.'' @ ?W else ''0.1.1'')"
    using assms(4) new_version_number [OF assms(1-3)] by (simp add: increment_version_def)
  {
    assume "length Z \<le> max_str_digits \<and> length (show_nat (digits_val Z + 1)) \<le> max_str_digits"
    then show "increment_version (Some text) = Some (X @ ''.'' @ Y @ ''.'' @ show_nat (digits_val Z + 1))"
      using first by simp
  }
  {
    assume "max_str_digits < length Z \<or> max_str_digits < length (show_nat (digits_val Z + 1))"
    then show "increment_version (Some text) = Some ''0.1.1''"
      using first by auto
  }
  {
    assume a: "length Z \<le> max_str_digits \<and> length (show_nat (digits_val Z + 2)) \<le> max_str_digits"
    have "length ?W \<le> length (show_nat (digits_val Z + 2))"
      by (rule length_show_nat_mono) simp
    then have w: "length ?W \<le> max_str_digits" using a by simp
    then have one: "increment_version (Some text) = Some (X @ ''.'' @ Y @ ''.'' @ ?W)"
      using first a by simp
    have W: "is_number ?W" by (rule show_nat_number)
    have "increment_version (Some (X @ ''.'' @ Y @ ''.'' @ ?W))
            = Some (X @ ''.'' @ Y @ ''.'' @ show_nat (Suc (digits_val ?W)))"
      using strip_version [OF assms(1) W, of Y] new_version_number [OF assms(1,2) W] w a
      by (simp add: increment_version_def digits_val_show_nat)
    then show "increment_version (increment_version (Some text))
        = Some (X @ ''.'' @ Y @ ''.'' @ show_nat (digits_val Z + 2))"
      using one by (simp add: digits_val_show_nat)
  }
qed

theorem version_bump_valid_witness:
  "increment_version (Some ''1.4.9'') = Some ''1.4.10''
   \<and> increment_version (increment_version (Some ''1.4.9'')) = Some ''1.4.11''"
proof -
  have n: "is_number ''1''" "is_number ''4''" "is_number ''9''"
    by (simp_all add: is_number_def is_digit_def)
  have s: "strip ''1.4.9'' = ''1'' @ ''.'' @ ''4'' @ ''.'' @ ''9''"
    by (simp add: strip_def strip_with_def is_space_def)
  have v: "show_nat (digits_val ''9'' + 1) = ''10''" "show_nat (digits_val ''9'' + 2) = ''11''"
    by (simp_all add: digits_val_def digit_val_def show_nat.simps)
  have l: "length ''9'' \<le> max_str_digits" "length ''10'' \<le> max_str_digits"
    "length ''11'' \<le> max_str_digits"
    by (simp_all add: max_str_digits_def)
  have e: "''1'' @ ''.'' @ ''4'' @ ''.'' @ ''10'' = ''1.4.10''"
    "''1'' @ ''.'' @ ''4'' @ ''.'' @ ''11'' = ''1.4.11''"
    by simp_all
  from version_bump_valid [OF n s, unfolded v e] l show ?thesis
    by blast
qed


text \<open>
  Claim C2, as stated, fails: content that is not of the shape \<open>major.minor.patch\<close> is
  not always reset. A fourth component is dropped and the third incremented.
\<close>

theorem version_bump_malformed_counterexample:
  "\<not> well_formed_version (strip ''1.2.3.4'')
   \<and> increment_version (Some ''1.2.3.4'') = Some ''1.2.4''
   \<and> increment_version (Some ''1.2.3.4'') \<noteq> Some ''0.1.1''"
  by (simp add: well_formed_version_def increment_version_def new_version_def strip_def
      strip_with_def is_space_def py_int_def is_c_space_def unsigned_int_def is_digit_def
      digits_val_def digit_val_def format_int_def show_nat.simps max_str_digits_def Let_def)

text \<open>
  Claim C2, amended. The reset happens exactly where the \<open>try\<close> block raises: when the
  stripped content has fewer than two dots (fewer than three components), when its third
  component is not an integer literal that \<open>int\<close> accepts (at most 4300 digits), or when
  the incremented number has more than 4300 digits. The file then holds \<open>0.1.1\<close>, the
  result for an absent file. All other content, of the shape \<open>major.minor.patch\<close> or not,
  is not reset: the file gets the first two components as they are written, then the
  value of the third plus one, and any further component is dropped.
\<close>

theorem version_bump_fallback:
  "(let parts = split_on CHR ''.'' (strip text) in
     (length (filter (\<lambda>c. c = CHR ''.'') (strip text)) < 2
        \<or> py_int (parts ! 2) = None
        \<or> (\<exists>m. py_int (parts ! 2) = Some m \<and> format_int (m + 1) = None)
      \<longrightarrow> increment_version (Some text) = Some ''0.1.1''
          \<and> increment_version (Some text) = increment_version None)
     \<and> (2 \<le> length (filter (\<lambda>c. c = CHR ''.'') (strip text))
        \<and> py_int (parts ! 2) = Some n \<and> format_int (n + 1) = Some patch
      \<longrightarrow> increment_version (Some text)
            = Some (parts ! 0 @ ''.'' @ parts ! 1 @ ''.'' @ patch)))"
proof -
  have some: "increment_version (Some text) = Some (new_version (strip text))"
    by (simp add: increment_version_def)
  show ?thesis
    unfolding some increment_version_absent
    by (auto simp: new_version_def length_split_on Let_def)
qed

theorem version_bump_fallback_witness:
  "increment_version (Some ''1.2.x'') = Some ''0.1.1''
   \<and> increment_version (Some ''1.2.x'') = increment_version None
   \<and> increment_version (Some ''1.2.3.4'') = Some ''1.2.4''"
proof -
  have a: "py_int (split_on CHR ''.'' (strip ''1.2.x'') ! 2) = None"
    by (simp add: strip_def strip_with_def is_space_def py_int_def is_c_space_def
        unsigned_int_def is_digit_def)
  have b: "2 \<le> length (filter (\<lambda>c. c = CHR ''.'') (strip ''1.2.3.4''))"
    "py_int (split_on CHR ''.'' (strip ''1.2.3.4'') ! 2) = Some 3"
    "format_int (3 + 1) = Some ''4''"
    "split_on CHR ''.'' (strip ''1.2.3.4'') ! 0 @ ''.'' @ split_on CHR ''.'' (strip ''1.2.3.4'') ! 1 @ ''.'' @ ''4'' = ''1.2.4''"
    by (simp_all add: strip_def strip_with_def is_space_def py_int_def is_c_space_def
        unsigned_int_def is_digit_def digits_val_def digit_val_def format_int_def
        show_nat.simps max_str_digits_def Let_def)
  show ?thesis
    using version_bump_fallback [of "''1.2.x''" 0 "[]"] a
      version_bump_fallback [of "''1.2.3.4''" 3 "''4''"] b
    unfolding Let_def by metis
qed

section \<open>The data-formatting operation: theorems\<close>

text \<open>
  Claim C10. For a data type other than \<open>email\<close>, \<open>phone\<close>, \<open>url\<close> and \<open>wifi\<close> (so for
  \<open>text\<close> and for any unrecognised type) the operation returns the data unchanged and
  raises nothing.
\<close>

theorem format_other_kind_unchanged:
  assumes "data_type \<noteq> ''email''" "data_type \<noteq> ''phone''" "data_type \<noteq> ''url''"
    "data_type \<noteq> ''wifi''"
  shows "format_data_for_qr data data_type = Inr data"
  using assms by (simp add: format_data_for_qr_def)

theorem format_other_kind_unchanged_witness:
  "format_data_for_qr ''Hello World'' ''text'' = Inr ''Hello World''
   \<and> format_data_for_qr ''a@b'' ''EMAIL'' = Inr ''a@b''"
  using format_other_kind_unchanged [of "''text''" "''Hello World''"]
    format_other_kind_unchanged [of "''EMAIL''" "''a@b''"]
  by simp

text \<open>
  Claim C8, as stated, fails: the pattern keeps \<open>+\<close> as well as the digits, and the
  length test counts what is kept. A number with six digits and a plus sign is accepted.
\<close>

theorem phone_digit_count_counterexample:
  "length (filter is_digit ''+123456'') < 7
   \<and> format_data_for_qr ''+123456'' ''phone'' = Inr ''tel:+123456''"
  by (simp add: format_data_for_qr_def is_digit_def)

text \<open>
  Claim C8, amended. A phone input is accepted, and formatted as \<open>tel:\<close> followed by the
  characters kept, if and only if at least 7 characters remain after removing every
  character that is neither a digit nor \<open>+\<close>; otherwise the operation raises the 400
  error. In particular an input with at least 7 digits is accepted.
\<close>

theorem phone_accepted_iff:
  "(let phone = filter (\<lambda>c. is_digit c \<or> c = CHR ''+'') data in
      (7 \<le> length phone \<longrightarrow> format_data_for_qr data ''phone'' = Inr (''tel:'' @ phone))
    \<and> (length phone < 7 \<longrightarrow>
          format_data_for_qr data ''phone'' = Inl (HTTPException 400 ''Invalid phone number'')))
   \<and> (7 \<le> length (filter is_digit data) \<longrightarrow> (\<exists>phone. format_data_for_qr data ''phone'' = Inr (''tel:'' @ phone)))"
proof -
  have "length (filter is_digit data) \<le> length (filter (\<lambda>c. is_digit c \<or> c = CHR ''+'') data)"
    by (induction data) auto
  then show ?thesis
    by (auto simp: format_data_for_qr_def Let_def)
qed

theorem phone_accepted_iff_witness:
  "format_data_for_qr ''+1 (555) 010-9999'' ''phone'' = Inr ''tel:+15550109999''
   \<and> format_data_for_qr ''123'' ''phone'' = Inl (HTTPException 400 ''Invalid phone number'')"
proof -
  have a: "filter (\<lambda>c. is_digit c \<or> c = CHR ''+'') ''+1 (555) 010-9999'' = ''+15550109999''"
    by (simp add: is_digit_def)
  have b: "filter (\<lambda>c. is_digit c \<or> c = CHR ''+'') ''123'' = ''123''"
    by (simp add: is_digit_def)
  show ?thesis
    using phone_accepted_iff [of "''+1 (555) 010-9999''"] phone_accepted_iff [of "''123''"]
    unfolding Let_def a b by simp
qed

section \<open>Infrastructure definitions: theorems\<close>

text \<open>
  Claim C7. When \<open>main.tf\<close>, \<open>variables.tf\<close> and \<open>outputs.tf\<close> all exist in the
  infrastructure directory, the generation step returns the directory as it found it and
  raises nothing, whatever the configuration and the analysis record are.
\<close>

theorem ensure_terraform_noop:
  assumes "exists_in terraform ''main.tf''" "exists_in terraform ''variables.tf''"
    "exists_in terraform ''outputs.tf''"
  shows "ensure_terraform_infrastructure config analysis terraform = (terraform, None)"
  using assms by (simp add: ensure_terraform_infrastructure_def)

theorem ensure_terraform_noop_witness:
  "ensure_terraform_infrastructure [] []
     (Dir [''main.tf'' \<mapsto> Other ''a'', ''variables.tf'' \<mapsto> Other ''b'', ''outputs.tf'' \<mapsto> Other ''c''])
   = (Dir [''main.tf'' \<mapsto> Other ''a'', ''variables.tf'' \<mapsto> Other ''b'', ''outputs.tf'' \<mapsto> Other ''c''], None)"
  by (rule ensure_terraform_noop) (simp_all add: exists_in_def)

text \<open>
  Claim C1, as stated, fails: for a file that parses and has no \<open>instance_type\<close> line,
  \<open>variables.tf\<close> gets the fallback of the generation step, \<open>t3.micro\<close>, which is not the
  \<open>t2.micro\<close> of the hard-coded default mapping.
\<close>

theorem instance_type_default_counterexample:
  "dict_get (load_config (Lines [''environment: staging''])) ''instance_type'' = None
   \<and> map_sum id v_instance_type (variables_content (load_config (Lines [''environment: staging''])))
       = Inr (PStr ''t3.micro'')
   \<and> dict_get default_config ''instance_type'' = Some (PStr ''t2.micro'')
   \<and> PStr ''t3.micro'' \<noteq> PStr ''t2.micro''"
  by (simp add: load_config_def load_line_def strip_def strip_with_def is_space_def
      startswith_def split_first_def parse_value_def dict_set_def dict_get_def
      default_config_def variables_content_def get_or_def replace.simps lower_def
      lower_char_def latin_capitals_def latin_smalls_def Let_def)

text \<open>
  Claim C1, amended. For every override file that exists and parses but has no
  \<open>instance_type\<close> key, the instance-type default written into \<open>variables.tf\<close> is the
  generation step's own fallback \<open>t3.micro\<close>. The \<open>t2.micro\<close> of the hard-coded default
  mapping is what the configuration holds only when the file is missing or cannot be
  read.
\<close>

theorem instance_type_default:
  assumes "dict_get (load_config (Lines ls)) ''instance_type'' = None"
    and "create_terraform_variables (load_config (Lines ls)) d = Inr d'"
  shows "(\<exists>v. d' ''variables.tf'' = Some (VariablesTf v) \<and> v_instance_type v = PStr ''t3.micro'')
         \<and> dict_get (load_config Missing) ''instance_type'' = Some (PStr ''t2.micro'')
         \<and> dict_get (load_config Unreadable) ''instance_type'' = Some (PStr ''t2.micro'')"
proof -
  from assms(2) obtain v where v: "variables_content (load_config (Lines ls)) = Inr v"
    and d': "d' = d(''variables.tf'' \<mapsto> VariablesTf v)"
    by (auto simp: create_terraform_variables_def split: sum.splits)
  have "v_instance_type v = PStr ''t3.micro''"
    using variables_content_instance_type [OF v] assms(1) by (simp add: get_or_def)
  then show ?thesis using d'
    by (simp add: load_config_def default_config_def dict_get_def)
qed

theorem instance_type_default_witness:
  "\<exists>v. v_instance_type v = PStr ''t3.micro''
       \<and> create_terraform_variables
            (load_config (Lines [''# override'', ''environment: staging'', ''labels: [x, y]'']))
            Map.empty = Inr (Map.empty(''variables.tf'' \<mapsto> VariablesTf v))"
proof -
  let ?cfg = "load_config (Lines [''# override'', ''environment: staging'', ''labels: [x, y]''])"
  have a: "dict_get ?cfg ''instance_type'' = None"
    by (simp add: example_config dict_get_def)
  obtain v where v: "variables_content ?cfg = Inr v"
    by (simp add: example_config variables_content_def get_or_def dict_get_def Let_def)
  then have b: "create_terraform_variables ?cfg Map.empty = Inr (Map.empty(''variables.tf'' \<mapsto> VariablesTf v))"
    by (simp add: create_terraform_variables_def)
  from instance_type_default [OF a b] b show ?thesis by auto
qed

text \<open>
  Claim C4: the code evaluated at two inputs where the files disagree. With the override
  \<open>backend_port: abc\<close>, \<open>_create_terraform_main\<close> resolves the ports to the defaults 8000
  and 3000, while \<open>variables.tf\<close> and \<open>terraform.tfvars\<close> receive \<open>abc\<close> as the backend
  port. With no override and a backend whose inferred port is 9090,
  \<open>_create_terraform_main\<close> resolves 9090, while the two files receive 8000.
\<close>

theorem port_resolution_differs_between_files:
  "main_tf_ports (load_config (Lines [''backend_port: abc'']))
       (analyze_project (\<lambda>s. Some 9090) sample_project) = Inr (8000, 3000)
   \<and> map_sum id v_backend_port (variables_content (load_config (Lines [''backend_port: abc'']))) = Inr (PStr ''abc'')
   \<and> map_sum id t_backend_port (tfvars_content (load_config (Lines [''backend_port: abc'']))) = Inr (PStr ''abc'')
   \<and> main_tf_ports (load_config (Lines [])) (analyze_project (\<lambda>s. Some 9090) sample_project) = Inr (9090, 3000)
   \<and> map_sum id v_backend_port (variables_content (load_config (Lines []))) = Inr (PInt 8000)
   \<and> map_sum id t_backend_port (tfvars_content (load_config (Lines []))) = Inr (PStr ''8000'')"
  by (simp add: eval_defs analyze_defs main_tf_ports_def variables_content_def tfvars_content_def
      replace.simps py_int_def is_c_space_def unsigned_int_def is_digit_def
      max_str_digits_def)

section \<open>Project Analyzer: theorems\<close>




section \<open>Advisory Enrichment: theorems\<close>

text \<open>
  Claim C3. For every record, credential, decoder and outcome of the request, the two
  modes differ exactly on failure: either enrichment with the explicit request raises
  and enrichment without it returns the record unmodified, or both return the same
  annotated record. Without a credential the explicit request raises the exception
  about the missing token and the other mode returns the record unchanged; a request
  that raises, or a response whose status is not 200, is fatal under the explicit
  request and leaves the record unmodified otherwise.
\<close>

theorem enrichment_dual_mode:
  "((\<exists>e. ai_enhance_analysis openai_token loads outcome analysis True = Inl e)
       \<and> ai_enhance_analysis openai_token loads outcome analysis False = Inr analysis
     \<or> (\<exists>v. truthy v
          \<and> ai_enhance_analysis openai_token loads outcome analysis True
              = Inr (dict_set analysis ''ai_recommendations'' v)
          \<and> ai_enhance_analysis openai_token loads outcome analysis False
              = Inr (dict_set analysis ''ai_recommendations'' v)))
   \<and> (openai_token = None \<or> openai_token = Some [] \<longrightarrow>
        ai_enhance_analysis openai_token loads outcome analysis True = Inl (Exception no_token_message)
        \<and> ai_enhance_analysis openai_token loads outcome analysis False = Inr analysis)
   \<and> (outcome = PostRaises msg \<or> (outcome = Response status_code text body \<and> status_code \<noteq> 200) \<longrightarrow>
        (\<exists>e. ai_enhance_analysis openai_token loads outcome analysis True = Inl e)
        \<and> ai_enhance_analysis openai_token loads outcome analysis False = Inr analysis)"
proof (intro conjI impI)
  show "(\<exists>e. ai_enhance_analysis openai_token loads outcome analysis True = Inl e)
       \<and> ai_enhance_analysis openai_token loads outcome analysis False = Inr analysis
     \<or> (\<exists>v. truthy v
          \<and> ai_enhance_analysis openai_token loads outcome analysis True
              = Inr (dict_set analysis ''ai_recommendations'' v)
          \<and> ai_enhance_analysis openai_token loads outcome analysis False
              = Inr (dict_set analysis ''ai_recommendations'' v))"
    using enhance_attempt_modes [of loads outcome analysis]
    by (auto simp: ai_enhance_analysis_def)
next
  assume "openai_token = None \<or> openai_token = Some []"
  then show "ai_enhance_analysis openai_token loads outcome analysis True = Inl (Exception no_token_message)"
    "ai_enhance_analysis openai_token loads outcome analysis False = Inr analysis"
    by (auto simp: ai_enhance_analysis_def)
next
  assume f: "outcome = PostRaises msg \<or> (outcome = Response status_code text body \<and> status_code \<noteq> 200)"
  have t: "\<exists>e. enhance_attempt loads outcome analysis True = Inl e"
    using call_openai_api_transport_failure [OF f, of loads]
    by (cases "analysis_context analysis") (auto simp: enhance_attempt_def)
  have l: "enhance_attempt loads outcome analysis False = Inr analysis
           \<or> (\<exists>e. enhance_attempt loads outcome analysis False = Inl e)"
    using call_openai_api_transport_failure [OF f, of loads]
    by (cases "analysis_context analysis") (auto simp: enhance_attempt_def)
  show "\<exists>e. ai_enhance_analysis openai_token loads outcome analysis True = Inl e"
    using t by (auto simp: ai_enhance_analysis_def)
  show "ai_enhance_analysis openai_token loads outcome analysis False = Inr analysis"
    using l by (auto simp: ai_enhance_analysis_def)
qed

theorem enrichment_dual_mode_witness:
  "ai_enhance_analysis None (\<lambda>s. None) (PostRaises ''timeout'')
       (analyze_project (\<lambda>s. None) bare_project) True = Inl (Exception no_token_message)
   \<and> ai_enhance_analysis None (\<lambda>s. None) (PostRaises ''timeout'')
       (analyze_project (\<lambda>s. None) bare_project) False = Inr (analyze_project (\<lambda>s. None) bare_project)
   \<and> (\<exists>e. ai_enhance_analysis (Some ''sk-1'') (\<lambda>s. None) (Response 503 ''unavailable'' None)
       (analyze_project (\<lambda>s. None) bare_project) True = Inl e)
   \<and> ai_enhance_analysis (Some ''sk-1'') (\<lambda>s. None) (Response 503 ''unavailable'' None)
       (analyze_project (\<lambda>s. None) bare_project) False = Inr (analyze_project (\<lambda>s. None) bare_project)"
  using enrichment_dual_mode [of None "\<lambda>s. None" "PostRaises ''timeout''"
      "analyze_project (\<lambda>s. None) bare_project" "''timeout''" 0 "[]" None]
    enrichment_dual_mode [of "Some ''sk-1''" "\<lambda>s. None" "Response 503 ''unavailable'' None"
      "analyze_project (\<lambda>s. None) bare_project" "[]" 503 "''unavailable''" None]
  by simp

text \<open>
  Claim C9. The record that enrichment receives is the one the analyzer has just
  produced. For every such record and every credential, decoder, request outcome and
  mode, a record that enrichment returns is the input unchanged or the input with exactly
  one field, the annotation, added at its end: every key of the input is still there
  with the value it had, so no facet field is altered.
\<close>

theorem enrichment_frame:
  assumes "ai_enhance_analysis openai_token loads outcome (analyze_project scan p) fail
             = Inr enhanced"
  shows "(enhanced = analyze_project scan p
            \<or> (\<exists>v. enhanced = analyze_project scan p @ [(''ai_recommendations'', v)]))
         \<and> (\<forall>k v. dict_get (analyze_project scan p) k = Some v \<longrightarrow> dict_get enhanced k = Some v)"
proof -
  have none: "dict_get (analyze_project scan p) ''ai_recommendations'' = None"
    by (rule analyze_project_no_annotation)
  from ai_enhance_analysis_frame [OF assms] none show ?thesis
    by (metis option.distinct(1))
qed

theorem enrichment_frame_witness:
  "ai_enhance_analysis (Some ''sk-1'') (\<lambda>s. None) (Response 200 [] (Some (reply_body ''cache the build'')))
       (analyze_project (\<lambda>s. None) bare_project) False
     = Inr (analyze_project (\<lambda>s. None) bare_project
             @ [(''ai_recommendations'', PDict [(''recommendations'', PStr ''cache the build'')])])
   \<and> dict_get (analyze_project (\<lambda>s. None) bare_project
             @ [(''ai_recommendations'', PDict [(''recommendations'', PStr ''cache the build'')])]) ''frontend''
      = Some (PDict [(''exists'', PBool False)])"
proof -
  let ?a = "analyze_project (\<lambda>s. None) bare_project"
  let ?e = "?a @ [(''ai_recommendations'', PDict [(''recommendations'', PStr ''cache the build'')])]"
  have r: "ai_enhance_analysis (Some ''sk-1'') (\<lambda>s. None)
             (Response 200 [] (Some (reply_body ''cache the build''))) ?a False = Inr ?e"
    by (simp add: ai_enhance_analysis_def enhance_attempt_def analysis_context_def
        call_openai_api_def api_attempt_def message_content_def reply_body_def
        dict_get_def get_or_def dict_set_def analyze_project_def)
  have f: "dict_get ?a ''frontend'' = Some (PDict [(''exists'', PBool False)])"
    by (simp add: analyze_project_def analyze_frontend_def bare_project_def dict_get_def)
  from enrichment_frame [OF r] f have "dict_get ?e ''frontend'' = Some (PDict [(''exists'', PBool False)])"
    by blast
  with r show ?thesis by simp
qed

end
